theory Spec2Isabelle
  imports Main
begin

section \<open>OneTimeValue: a slot whose value is read at most once\<close>

text \<open>
  The development embeds \<^verbatim>\<open>src/one_time_value.hpp\<close>: the class template
  \<^verbatim>\<open>OneTimeValue<T>\<close> with its single private member
  \<^verbatim>\<open>std::optional<T> value_\<close>.

  The element type \<^verbatim>\<open>T\<close> is a type variable. Copying a \<^verbatim>\<open>T\<close> yields an equal
  value. Moving out of a \<^verbatim>\<open>T\<close> object gives the destination the value and leaves the
  source in a valid but unspecified state: that state is the parameter \<open>mv\<close> of every
  operation that moves (\<open>mv v\<close> is what remains of an object that held \<open>v\<close>), and the
  theorems hold for every \<open>mv\<close>.

  The operations are given twice. The first form describes a call that returns: what it
  returns and what it leaves behind. The second form (the names ending in
  \<open>_throwing\<close>) adds what the first leaves out: the copy and move operations of
  \<^verbatim>\<open>T\<close> are code of \<^verbatim>\<open>T\<close> and may throw, and \<^verbatim>\<open>set\<close>, \<^verbatim>\<open>consume\<close> and
  \<^verbatim>\<open>take_or\<close>, which are not \<^verbatim>\<open>noexcept\<close>, let such an exception escape.
\<close>

subsection \<open>The operations of std::optional the class uses\<close>

text \<open>
  \<^verbatim>\<open>operator*\<close> has a precondition: the optional is engaged. Dereferencing a
  disengaged optional is undefined behaviour, which the model reports as a fault. The
  other fault is an exception thrown by an operation of \<^verbatim>\<open>T\<close> and not caught by the
  class; it carries the exception's message.
\<close>

datatype fault = Deref_disengaged | Thrown string

definition opt_has_value :: "'a option \<Rightarrow> bool" where
  "opt_has_value x = (case x of None \<Rightarrow> False | Some _ \<Rightarrow> True)"

definition opt_reset :: "'a option \<Rightarrow> 'a option" where
  "opt_reset x = None"

definition opt_deref :: "'a option \<Rightarrow> fault + 'a" where
  "opt_deref x = (case x of None \<Rightarrow> Inl Deref_disengaged | Some v \<Rightarrow> Inr v)"

text \<open>
  The move constructor of \<^verbatim>\<open>std::optional<T>\<close>: the new optional is engaged exactly
  when the source is, and the source stays engaged, holding a moved-from \<^verbatim>\<open>T\<close>. The
  result is the pair (new optional, source afterwards).
\<close>

definition opt_move :: "('a \<Rightarrow> 'a) \<Rightarrow> 'a option \<Rightarrow> 'a option \<times> 'a option" where
  "opt_move mv x = (case x of None \<Rightarrow> (None, None) | Some v \<Rightarrow> (Some v, Some (mv v)))"

subsection \<open>The class\<close>

text \<open>
  The member \<^verbatim>\<open>value_\<close> is the field \<open>value'\<close>: a name of the logic cannot end
  in an underscore.
\<close>

record 'a OneTimeValue =
  value' :: "'a option"

text \<open>
  Constructors. A parameter passed by reference is returned next to the container, as
  the caller finds it after the call: unchanged for \<^verbatim>\<open>const T &\<close>, moved-from for
  \<^verbatim>\<open>T &&\<close>.
\<close>

definition OneTimeValue_default :: "'a OneTimeValue" where
  "OneTimeValue_default = \<lparr>value' = None\<rparr>"

definition OneTimeValue_copy :: "'a \<Rightarrow> 'a OneTimeValue \<times> 'a" where
  "OneTimeValue_copy v = (\<lparr>value' = Some v\<rparr>, v)"

definition OneTimeValue_move :: "('a \<Rightarrow> 'a) \<Rightarrow> 'a \<Rightarrow> 'a OneTimeValue \<times> 'a" where
  "OneTimeValue_move mv v = (\<lparr>value' = Some v\<rparr>, mv v)"

text \<open>\<^verbatim>\<open>void set(const T &value)\<close> and \<^verbatim>\<open>void set(T &&value)\<close>.\<close>

definition set_copy :: "'a OneTimeValue \<Rightarrow> 'a \<Rightarrow> 'a OneTimeValue \<times> 'a" where
  "set_copy s v = (s\<lparr>value' := Some v\<rparr>, v)"

definition set_move :: "('a \<Rightarrow> 'a) \<Rightarrow> 'a OneTimeValue \<Rightarrow> 'a \<Rightarrow> 'a OneTimeValue \<times> 'a" where
  "set_move mv s v = (s\<lparr>value' := Some v\<rparr>, mv v)"

text \<open>\<^verbatim>\<open>bool has_value() const noexcept\<close>.\<close>

definition has_value :: "'a OneTimeValue \<Rightarrow> bool" where
  "has_value s = opt_has_value (value' s)"

text \<open>
  \<^verbatim>\<open>std::optional<T> consume()\<close>: the early return on a disengaged slot, then the
  move into \<^verbatim>\<open>tmp\<close>, the reset of the slot, and the return of \<^verbatim>\<open>tmp\<close>. The
  result is the pair (returned optional, container afterwards).
\<close>

definition consume :: "('a \<Rightarrow> 'a) \<Rightarrow> 'a OneTimeValue \<Rightarrow> 'a option \<times> 'a OneTimeValue" where
  "consume mv s =
     (if \<not> opt_has_value (value' s) then (None, s)
      else
        let (tmp, src) = opt_move mv (value' s);
            s1 = s\<lparr>value' := src\<rparr>;
            s2 = s1\<lparr>value' := opt_reset (value' s1)\<rparr>
        in (tmp, s2))"

text \<open>
  \<^verbatim>\<open>T take_or(const T &default_value)\<close>: on an engaged slot the payload is moved into
  \<^verbatim>\<open>tmp\<close> (the slot then holds a moved-from payload), the slot is reset and
  \<^verbatim>\<open>tmp\<close> returned; otherwise a copy of the fallback is returned. The result is the
  triple (returned value, container afterwards, fallback afterwards).
\<close>

definition take_or ::
  "('a \<Rightarrow> 'a) \<Rightarrow> 'a OneTimeValue \<Rightarrow> 'a \<Rightarrow> fault + ('a \<times> 'a OneTimeValue \<times> 'a)" where
  "take_or mv s default_value =
     (if opt_has_value (value' s) then
        (case opt_deref (value' s) of
           Inl e \<Rightarrow> Inl e
         | Inr v \<Rightarrow>
             let tmp = v;
                 s1 = s\<lparr>value' := Some (mv v)\<rparr>;
                 s2 = s1\<lparr>value' := opt_reset (value' s1)\<rparr>
             in Inr (tmp, s2, default_value))
      else Inr (default_value, s, default_value))"

text \<open>\<^verbatim>\<open>void reset() noexcept\<close>.\<close>

definition reset :: "'a OneTimeValue \<Rightarrow> 'a OneTimeValue" where
  "reset s = s\<lparr>value' := opt_reset (value' s)\<rparr>"

text \<open>
  The copy operations the compiler generates for the class (the source declares none of
  its own): both copy the one member from \<^verbatim>\<open>other\<close>, which is passed by
  \<^verbatim>\<open>const OneTimeValue &\<close> and returned as the caller finds it afterwards.
\<close>

definition OneTimeValue_copy_ctor :: "'a OneTimeValue \<Rightarrow> 'a OneTimeValue \<times> 'a OneTimeValue" where
  "OneTimeValue_copy_ctor other = (\<lparr>value' = value' other\<rparr>, other)"

definition copy_assign ::
  "'a OneTimeValue \<Rightarrow> 'a OneTimeValue \<Rightarrow> 'a OneTimeValue \<times> 'a OneTimeValue" where
  "copy_assign s other = (s\<lparr>value' := value' other\<rparr>, other)"

subsection \<open>Calls on one container\<close>

text \<open>
  A caller's view of one container: a call, what it returns, and the container
  afterwards. What remains of an argument passed by reference belongs to the caller
  and is not part of the step. A fault of an operation ends the run.
\<close>

datatype 'a call = Set_copy 'a | Set_move 'a | Has_value | Consume | Take_or 'a | Reset

datatype 'a ret = Ret_void | Ret_bool bool | Ret_opt "'a option" | Ret_val 'a

definition step ::
  "('a \<Rightarrow> 'a) \<Rightarrow> 'a call \<Rightarrow> 'a OneTimeValue \<Rightarrow> fault + ('a ret \<times> 'a OneTimeValue)" where
  "step mv c s =
     (case c of
        Set_copy v \<Rightarrow> Inr (Ret_void, fst (set_copy s v))
      | Set_move v \<Rightarrow> Inr (Ret_void, fst (set_move mv s v))
      | Has_value \<Rightarrow> Inr (Ret_bool (has_value s), s)
      | Consume \<Rightarrow> (case consume mv s of (r, s') \<Rightarrow> Inr (Ret_opt r, s'))
      | Take_or d \<Rightarrow>
          (case take_or mv s d of
             Inl e \<Rightarrow> Inl e
           | Inr (r, s', _) \<Rightarrow> Inr (Ret_val r, s'))
      | Reset \<Rightarrow> Inr (Ret_void, reset s))"

fun run ::
  "('a \<Rightarrow> 'a) \<Rightarrow> 'a call list \<Rightarrow> 'a OneTimeValue \<Rightarrow> fault + ('a ret list \<times> 'a OneTimeValue)" where
  "run mv [] s = Inr ([], s)"
| "run mv (c # cs) s =
     (case step mv c s of
        Inl e \<Rightarrow> Inl e
      | Inr (r, s') \<Rightarrow>
          (case run mv cs s' of
             Inl e \<Rightarrow> Inl e
           | Inr (rs, s'') \<Rightarrow> Inr (r # rs, s'')))"

subsection \<open>The element type's operations may throw\<close>















subsection \<open>Several containers\<close>

text \<open>
  Containers as objects at addresses, so that two names for one object and two objects
  with equal contents are different things. An operation on the object at an address
  changes the store at that address.
\<close>

type_synonym 'a store = "nat \<Rightarrow> 'a OneTimeValue"

definition construct_copy_at :: "'a store \<Rightarrow> nat \<Rightarrow> nat \<Rightarrow> 'a store" where
  "construct_copy_at st q p =
     (case OneTimeValue_copy_ctor (st p) of (c, other) \<Rightarrow> (st(p := other))(q := c))"

definition copy_assign_at :: "'a store \<Rightarrow> nat \<Rightarrow> nat \<Rightarrow> 'a store" where
  "copy_assign_at st q p =
     (case copy_assign (st q) (st p) of (c, other) \<Rightarrow> (st(p := other))(q := c))"

definition consume_at :: "('a \<Rightarrow> 'a) \<Rightarrow> 'a store \<Rightarrow> nat \<Rightarrow> 'a option \<times> 'a store" where
  "consume_at mv st p = (case consume mv (st p) of (r, c) \<Rightarrow> (r, st(p := c)))"

definition has_value_at :: "'a store \<Rightarrow> nat \<Rightarrow> bool" where
  "has_value_at st p = has_value (st p)"

section \<open>Basic facts\<close>

lemma has_value_iff: "has_value s = (\<exists>v. value' s = Some v)"
  by (cases "value' s") (simp_all add: has_value_def opt_has_value_def)

lemma consume_Some:
  "value' s = Some v \<Longrightarrow> consume mv s = (Some v, s\<lparr>value' := None\<rparr>)"
  by (simp add: consume_def opt_has_value_def opt_move_def opt_reset_def)

lemma consume_None:
  "value' s = None \<Longrightarrow> consume mv s = (None, s)"
  by (simp add: consume_def opt_has_value_def)

lemma take_or_Some:
  "value' s = Some v \<Longrightarrow> take_or mv s d = Inr (v, s\<lparr>value' := None\<rparr>, d)"
  by (simp add: take_or_def opt_has_value_def opt_deref_def opt_reset_def)

lemma take_or_None:
  "value' s = None \<Longrightarrow> take_or mv s d = Inr (d, s, d)"
  by (simp add: take_or_def opt_has_value_def)

lemma consume_eq: "consume mv s = (value' s, s\<lparr>value' := None\<rparr>)"
  by (cases "value' s") (simp_all add: consume_Some consume_None)

lemma take_or_eq:
  "take_or mv s d = Inr (case value' s of None \<Rightarrow> d | Some v \<Rightarrow> v, s\<lparr>value' := None\<rparr>, d)"
  by (cases "value' s") (simp_all add: take_or_Some take_or_None)

lemma not_has_value_iff: "(\<not> has_value s) = (value' s = None)"
  by (simp add: has_value_iff)

lemma step_Consume: "step mv Consume s = Inr (Ret_opt (value' s), s\<lparr>value' := None\<rparr>)"
  by (simp add: step_def consume_eq)

lemma step_Take_or:
  "step mv (Take_or d) s =
     Inr (Ret_val (case value' s of None \<Rightarrow> d | Some v \<Rightarrow> v), s\<lparr>value' := None\<rparr>)"
  by (simp add: step_def take_or_eq)

lemma step_Set_copy: "step mv (Set_copy v) s = Inr (Ret_void, s\<lparr>value' := Some v\<rparr>)"
  by (simp add: step_def set_copy_def)

lemma step_Set_move: "step mv (Set_move v) s = Inr (Ret_void, s\<lparr>value' := Some v\<rparr>)"
  by (simp add: step_def set_move_def)

lemma step_Has_value: "step mv Has_value s = Inr (Ret_bool (has_value s), s)"
  by (simp add: step_def)

lemma step_Reset: "step mv Reset s = Inr (Ret_void, s\<lparr>value' := None\<rparr>)"
  by (simp add: step_def reset_def opt_reset_def)

lemmas step_simps = step_Consume step_Take_or step_Set_copy step_Set_move step_Has_value step_Reset



lemma run_replicate_Has_value:
  "run mv (replicate n Has_value) s = Inr (replicate n (Ret_bool (has_value s)), s)"
  by (induction n) (simp_all add: step_Has_value)

lemma take_or_no_fault: "take_or mv s d \<noteq> Inl e"
  by (simp add: take_or_eq)







text \<open>
  The five scenarios the specification lists, run from a default-constructed container,
  with strings and integers for \<^verbatim>\<open>T\<close>.
\<close>

lemma scenarios:
  "run mv [Has_value] (OneTimeValue_default :: int OneTimeValue) =
     Inr ([Ret_bool False], \<lparr>value' = None\<rparr>)"
  "run mv [Set_copy (42::int), Has_value, Consume, Has_value] OneTimeValue_default =
     Inr ([Ret_void, Ret_bool True, Ret_opt (Some 42), Ret_bool False], \<lparr>value' = None\<rparr>)"
  "run mv' [Set_copy ''a'', Set_copy ''b'', Consume] OneTimeValue_default =
     Inr ([Ret_void, Ret_void, Ret_opt (Some ''b'')], \<lparr>value' = None\<rparr>)"
  "run mv [Take_or (7::int), Has_value] OneTimeValue_default =
     Inr ([Ret_val 7, Ret_bool False], \<lparr>value' = None\<rparr>)"
  "run mv [Set_copy (9::int), Take_or 7, Consume] OneTimeValue_default =
     Inr ([Ret_void, Ret_val 9, Ret_opt None], \<lparr>value' = None\<rparr>)"
  by (simp_all add: step_simps OneTimeValue_default_def has_value_iff)

section \<open>The claims\<close>

text \<open>
  Claim C1 (the one-time contract). In every state of the container, a first
  \<open>consume\<close> returns what the slot holds (the value, or the empty indicator when it
  holds none) and a first \<open>take_or\<close> returns the held value (the fallback when there is
  none); both leave the slot empty. In the state they leave, \<open>has_value\<close> is false,
  \<open>consume\<close> returns the empty indicator and \<open>take_or d'\<close> returns \<open>d'\<close>. The four
  runs of two reads in a row, with no \<open>set\<close> between them, say the same of the calls
  in sequence.
\<close>

theorem one_time_contract:
  "consume mv s = (value' s, s\<lparr>value' := None\<rparr>) \<and>
   take_or mv s d = Inr (case value' s of None \<Rightarrow> d | Some v \<Rightarrow> v, s\<lparr>value' := None\<rparr>, d) \<and>
   \<not> has_value (s\<lparr>value' := None\<rparr>) \<and>
   consume mv (s\<lparr>value' := None\<rparr>) = (None, s\<lparr>value' := None\<rparr>) \<and>
   take_or mv (s\<lparr>value' := None\<rparr>) d' = Inr (d', s\<lparr>value' := None\<rparr>, d') \<and>
   run mv [Consume, Consume] s =
     Inr ([Ret_opt (value' s), Ret_opt None], s\<lparr>value' := None\<rparr>) \<and>
   run mv [Consume, Take_or d'] s =
     Inr ([Ret_opt (value' s), Ret_val d'], s\<lparr>value' := None\<rparr>) \<and>
   run mv [Take_or d, Consume] s =
     Inr ([Ret_val (case value' s of None \<Rightarrow> d | Some v \<Rightarrow> v), Ret_opt None],
          s\<lparr>value' := None\<rparr>) \<and>
   run mv [Take_or d, Take_or d'] s =
     Inr ([Ret_val (case value' s of None \<Rightarrow> d | Some v \<Rightarrow> v), Ret_val d'],
          s\<lparr>value' := None\<rparr>)"
  by (simp add: consume_eq take_or_eq not_has_value_iff step_Consume step_Take_or)

text \<open>
  Claim C2 (\<open>consume\<close>). On a container holding \<open>v\<close>, \<open>consume\<close> returns the
  engaged optional \<open>Some v\<close> and the slot is empty afterwards. On an empty container it
  returns the empty indicator and leaves the container as it was, so that a second
  \<open>consume\<close> gives the same result and the same container again.
\<close>

theorem consume_returns_and_clears:
  "(value' s = Some v \<longrightarrow>
      consume mv s = (Some v, s\<lparr>value' := None\<rparr>) \<and> \<not> has_value (snd (consume mv s))) \<and>
   (\<not> has_value s \<longrightarrow>
      consume mv s = (None, s) \<and> \<not> has_value (snd (consume mv s)) \<and>
      consume mv (snd (consume mv s)) = (None, s))"
  by (simp add: consume_Some consume_None not_has_value_iff)

theorem consume_returns_and_clears_witness:
  "value' \<lparr>value' = Some (42::int)\<rparr> = Some 42 \<and>
   consume (\<lambda>_. 0) \<lparr>value' = Some (42::int)\<rparr> = (Some 42, \<lparr>value' = None\<rparr>) \<and>
   \<not> has_value \<lparr>value' = (None :: int option)\<rparr> \<and>
   consume (\<lambda>_. 0) \<lparr>value' = (None :: int option)\<rparr> = (None, \<lparr>value' = None\<rparr>) \<and>
   consume (\<lambda>_. 0) (snd (consume (\<lambda>_. 0) \<lparr>value' = (None :: int option)\<rparr>)) =
     (None, \<lparr>value' = None\<rparr>)"
  using consume_returns_and_clears [of "\<lparr>value' = Some (42::int)\<rparr>" 42 "\<lambda>_. 0"]
    consume_returns_and_clears [of "\<lparr>value' = (None :: int option)\<rparr>" 0 "\<lambda>_. 0"]
  by (simp add: has_value_def opt_has_value_def)

text \<open>
  Claim C3 (\<open>take_or\<close>). On a container holding \<open>v\<close>, \<open>take_or d\<close> returns \<open>v\<close> and
  leaves the container empty; when \<open>v\<close> and \<open>d\<close> differ, what it returns is not \<open>d\<close>.
  On an empty container it returns exactly \<open>d\<close> and the container is unchanged, hence
  still empty.
\<close>

theorem take_or_value_or_fallback:
  "(value' s = Some v \<longrightarrow>
      take_or mv s d = Inr (v, s\<lparr>value' := None\<rparr>, d) \<and>
      \<not> has_value (s\<lparr>value' := None\<rparr>) \<and>
      (v \<noteq> d \<longrightarrow> (\<forall>s' d'. take_or mv s d \<noteq> Inr (d, s', d')))) \<and>
   (\<not> has_value s \<longrightarrow> take_or mv s d = Inr (d, s, d) \<and> \<not> has_value s)"
  by (simp add: take_or_Some take_or_None not_has_value_iff)

theorem take_or_value_or_fallback_witness:
  "value' \<lparr>value' = Some (9::int)\<rparr> = Some 9 \<and> (9::int) \<noteq> 7 \<and>
   take_or (\<lambda>_. 0) \<lparr>value' = Some (9::int)\<rparr> 7 = Inr (9, \<lparr>value' = None\<rparr>, 7) \<and>
   (\<forall>s' d'. take_or (\<lambda>_. 0) \<lparr>value' = Some (9::int)\<rparr> 7 \<noteq> Inr (7, s', d')) \<and>
   \<not> has_value \<lparr>value' = (None :: int option)\<rparr> \<and>
   take_or (\<lambda>_. 0) \<lparr>value' = (None :: int option)\<rparr> 7 = Inr (7, \<lparr>value' = None\<rparr>, 7)"
  using take_or_value_or_fallback [of "\<lparr>value' = Some (9::int)\<rparr>" 9 "\<lambda>_. 0" 7]
    take_or_value_or_fallback [of "\<lparr>value' = (None :: int option)\<rparr>" 0 "\<lambda>_. 0" 7]
  by (simp add: has_value_def opt_has_value_def)






text \<open>
  Claim C6 (construction). The default-constructed container is empty. A container
  constructed from \<open>v\<close>, by copy or by move, holds a value; \<open>consume\<close> returns
  \<open>Some v\<close> and leaves it empty. The copy constructor leaves its argument as it was,
  the move constructor leaves it moved-from.
\<close>

theorem construction:
  "\<not> has_value (OneTimeValue_default :: 'a OneTimeValue) \<and>
   has_value (fst (OneTimeValue_copy v)) \<and>
   snd (OneTimeValue_copy v) = v \<and>
   consume mv (fst (OneTimeValue_copy v)) = (Some v, \<lparr>value' = None\<rparr>) \<and>
   \<not> has_value (snd (consume mv (fst (OneTimeValue_copy v)))) \<and>
   has_value (fst (OneTimeValue_move mv v)) \<and>
   snd (OneTimeValue_move mv v) = mv v \<and>
   consume mv (fst (OneTimeValue_move mv v)) = (Some v, \<lparr>value' = None\<rparr>) \<and>
   \<not> has_value (snd (consume mv (fst (OneTimeValue_move mv v))))"
  by (simp add: OneTimeValue_default_def OneTimeValue_copy_def OneTimeValue_move_def
      has_value_iff consume_eq)

text \<open>
  Claim C7 (\<open>reset\<close>). In every state \<open>reset\<close> leaves the slot empty and changes
  nothing else; afterwards \<open>has_value\<close> is false and \<open>consume\<close> returns the empty
  indicator. In particular this holds on a container that held \<open>v\<close>.
\<close>

theorem reset_empties:
  "reset s = s\<lparr>value' := None\<rparr> \<and>
   \<not> has_value (reset s) \<and>
   consume mv (reset s) = (None, reset s) \<and>
   has_value (s\<lparr>value' := Some v\<rparr>) \<and>
   \<not> has_value (reset (s\<lparr>value' := Some v\<rparr>)) \<and>
   fst (consume mv (reset (s\<lparr>value' := Some v\<rparr>))) = None \<and>
   run mv [Reset, Has_value, Consume] s =
     Inr ([Ret_void, Ret_bool False, Ret_opt None], s\<lparr>value' := None\<rparr>)"
  by (simp add: reset_def opt_reset_def has_value_iff consume_eq step_simps)

text \<open>
  Claim C8 (\<open>has_value\<close> is a pure query). It is true exactly when the slot holds a
  value, the call leaves the container as it was, and so do \<open>n\<close> calls in a row, each of
  which returns the same answer.
\<close>

theorem has_value_pure:
  "has_value s = (\<exists>v. value' s = Some v) \<and>
   has_value s = (value' s \<noteq> None) \<and>
   step mv Has_value s = Inr (Ret_bool (has_value s), s) \<and>
   run mv (replicate n Has_value) s = Inr (replicate n (Ret_bool (has_value s)), s)"
  using has_value_iff [of s] by (simp add: step_Has_value run_replicate_Has_value)

text \<open>
  Claim C9 (the fallback of \<open>take_or\<close>). On a container holding \<open>v\<close>, \<open>take_or d\<close>
  returns \<open>v\<close>; the caller's fallback is still \<open>d\<close> afterwards, the container holds
  nothing afterwards (so it has not kept \<open>d\<close>), and the returned value and the
  container do not depend on which fallback was passed. On an empty container the value
  returned is \<open>d\<close> itself, and the fallback is still \<open>d\<close>.
\<close>

theorem take_or_fallback_untouched:
  "(value' s = Some v \<longrightarrow>
      take_or mv s d = Inr (v, s\<lparr>value' := None\<rparr>, d) \<and>
      value' (s\<lparr>value' := None\<rparr>) = None \<and>
      map_sum id (\<lambda>(r, c, _). (r, c)) (take_or mv s d') =
        map_sum id (\<lambda>(r, c, _). (r, c)) (take_or mv s d)) \<and>
   (value' s = None \<longrightarrow> take_or mv s d = Inr (d, s, d))"
  by (simp add: take_or_Some take_or_None)

theorem take_or_fallback_untouched_witness:
  "value' \<lparr>value' = Some ''v''\<rparr> = Some ''v'' \<and>
   take_or (\<lambda>_. []) \<lparr>value' = Some ''v''\<rparr> ''d'' = Inr (''v'', \<lparr>value' = None\<rparr>, ''d'') \<and>
   map_sum id (\<lambda>(r, c, _). (r, c)) (take_or (\<lambda>_. []) \<lparr>value' = Some ''v''\<rparr> ''e'') =
     map_sum id (\<lambda>(r, c, _). (r, c)) (take_or (\<lambda>_. []) \<lparr>value' = Some ''v''\<rparr> ''d'') \<and>
   value' \<lparr>value' = (None :: string option)\<rparr> = None \<and>
   take_or (\<lambda>_. []) \<lparr>value' = None\<rparr> ''d'' = Inr (''d'', \<lparr>value' = None\<rparr>, ''d'')"
proof -
  note inst =
    take_or_fallback_untouched [of "\<lparr>value' = Some ''v''\<rparr>" "''v''" "\<lambda>_. []" "''d''" "''e''"]
  note inst' =
    take_or_fallback_untouched [of "\<lparr>value' = None\<rparr>" "''v''" "\<lambda>_. []" "''d''" "''e''"]
  from inst inst' show ?thesis by simp
qed

text \<open>
  Claim C10 (copies are independent containers). Let the object at address \<open>p\<close> hold
  \<open>v\<close>, and let the object at a different address \<open>q\<close> be copy-constructed from it, or
  copy-assigned from it. Then both hold a value. Consuming at \<open>p\<close> returns \<open>v\<close> and
  empties \<open>p\<close> only: \<open>q\<close> still holds a value, and consuming at \<open>q\<close> returns \<open>v\<close> a
  second time. The same holds with the roles exchanged: consuming the copy leaves the
  original populated. One value is thus returned once per container, not once overall.
\<close>

theorem copies_independent:
  assumes "p \<noteq> q" and "value' (st p) = Some v"
  shows
    "(let st1 = construct_copy_at st q p;
          (r, st2) = consume_at mv st1 p;
          (r', st3) = consume_at mv st2 q
      in has_value_at st1 p \<and> has_value_at st1 q \<and>
         r = Some v \<and> \<not> has_value_at st2 p \<and> has_value_at st2 q \<and>
         r' = Some v \<and> \<not> has_value_at st3 p \<and> \<not> has_value_at st3 q) \<and>
     (let st1 = construct_copy_at st q p;
          (r, st2) = consume_at mv st1 q
      in r = Some v \<and> \<not> has_value_at st2 q \<and> has_value_at st2 p) \<and>
     (let st1 = copy_assign_at st q p;
          (r, st2) = consume_at mv st1 p;
          (r', st3) = consume_at mv st2 q
      in has_value_at st1 p \<and> has_value_at st1 q \<and>
         r = Some v \<and> \<not> has_value_at st2 p \<and> has_value_at st2 q \<and>
         r' = Some v \<and> \<not> has_value_at st3 p \<and> \<not> has_value_at st3 q) \<and>
     (let st1 = copy_assign_at st q p;
          (r, st2) = consume_at mv st1 q
      in r = Some v \<and> \<not> has_value_at st2 q \<and> has_value_at st2 p)"
  using assms
  by (simp add: construct_copy_at_def copy_assign_at_def OneTimeValue_copy_ctor_def
      copy_assign_def consume_at_def has_value_at_def has_value_iff consume_eq Let_def)

theorem copies_independent_witness:
  "(0::nat) \<noteq> 1 \<and>
   value' (((\<lambda>_. \<lparr>value' = None\<rparr>)(0 := \<lparr>value' = Some (5::int)\<rparr>)) 0) = Some 5 \<and>
   fst (consume_at (\<lambda>_. 0)
         (construct_copy_at ((\<lambda>_. \<lparr>value' = None\<rparr>)(0 := \<lparr>value' = Some (5::int)\<rparr>)) 1 0) 0)
     = Some 5 \<and>
   has_value_at (snd (consume_at (\<lambda>_. 0)
         (construct_copy_at ((\<lambda>_. \<lparr>value' = None\<rparr>)(0 := \<lparr>value' = Some (5::int)\<rparr>)) 1 0) 0)) 1 \<and>
   \<not> has_value_at (snd (consume_at (\<lambda>_. 0)
         (construct_copy_at ((\<lambda>_. \<lparr>value' = None\<rparr>)(0 := \<lparr>value' = Some (5::int)\<rparr>)) 1 0) 0)) 0"
proof -
  have h1: "(0::nat) \<noteq> 1" by simp
  have h2: "value' (((\<lambda>_. \<lparr>value' = None\<rparr>)(0 := \<lparr>value' = Some (5::int)\<rparr>)) 0) = Some 5"
    by simp
  note inst = copies_independent
    [where p = 0 and q = 1 and v = 5 and mv = "\<lambda>_. 0"
       and st = "(\<lambda>_. \<lparr>value' = None\<rparr>)(0 := \<lparr>value' = Some (5::int)\<rparr>)", OF h1 h2]
  from inst h1 h2 show ?thesis by (simp add: Let_def case_prod_beta)
qed

end
